theory Spec2Isabelle
  imports Main "HOL-Library.Word" "HOL-Library.Signed_Division"
begin

unbundle bit_operations_syntax

section \<open>Blocks storage configuration (package tsdb, config.go)\<close>

text \<open>
  The embedding follows \<^verbatim>\<open>pkg/storage/tsdb/config.go\<close>. Go's \<^verbatim>\<open>int\<close> is taken at its
  64-bit width (the width on every platform Mimir is built for), \<^verbatim>\<open>time.Duration\<close> is an
  \<^verbatim>\<open>int64\<close> count of nanoseconds, and both are 64-bit words read in two's complement:
  comparisons are the signed ones (\<open><s\<close>, \<open><=s\<close>), \<open>+\<close> and \<open>-\<close> wrap around.
\<close>

subsection \<open>Machine integers, durations, errors\<close>

type_synonym go_int = "64 word"
type_synonym go_uint64 = "64 word"
type_synonym Duration = "64 word"
type_synonym float64 = "64 word" \<comment> \<open>the IEEE bit pattern; no function below reads it\<close>

text \<open>Go's \<^verbatim>\<open>%\<close> on signed integers truncates towards zero: the result has the sign of
  the dividend. The divisor is never zero where the code below uses it.\<close>

definition go_rem :: "go_int \<Rightarrow> go_int \<Rightarrow> go_int" where
  "go_rem x y = word_of_int (sint x smod sint y)"

text \<open>The constants of package \<^verbatim>\<open>time\<close> that the file uses.\<close>

definition Nanosecond :: Duration where "Nanosecond = 1"
definition Microsecond :: Duration where "Microsecond = 1000 * Nanosecond"
definition Millisecond :: Duration where "Millisecond = 1000 * Microsecond"
definition Second :: Duration where "Second = 1000 * Millisecond"
definition Minute :: Duration where "Minute = 60 * Second"
definition Hour :: Duration where "Hour = 60 * Minute"

text \<open>
  Error values. \<^verbatim>\<open>errors.New\<close> and \<^verbatim>\<open>errors.Errorf\<close> build an error from a message
  (\<^verbatim>\<open>Errorf\<close> from a format and its integer arguments), \<^verbatim>\<open>errors.Wrap\<close> puts a message in
  front of an existing error. A validator returns \<open>None\<close> for Go's \<^verbatim>\<open>nil\<close>.
\<close>

datatype error =
    New string
  | Errorf string "go_int list"
  | Wrap error string

definition errInvalidShipConcurrency :: error where
  "errInvalidShipConcurrency = New ''invalid TSDB ship concurrency''"
definition errInvalidOpeningConcurrency :: error where
  "errInvalidOpeningConcurrency = New ''invalid TSDB opening concurrency''"
definition errInvalidCompactionInterval :: error where
  "errInvalidCompactionInterval = New ''invalid TSDB compaction interval''"
definition errInvalidCompactionConcurrency :: error where
  "errInvalidCompactionConcurrency = New ''invalid TSDB compaction concurrency''"
definition errInvalidWALSegmentSizeBytes :: error where
  "errInvalidWALSegmentSizeBytes = New ''invalid TSDB WAL segment size bytes''"
definition errInvalidStripeSize :: error where
  "errInvalidStripeSize = New ''invalid TSDB stripe size''"
definition errInvalidStreamingBatchSize :: error where
  "errInvalidStreamingBatchSize = New ''invalid store-gateway streaming batch size''"
definition errEmptyBlockranges :: error where
  "errEmptyBlockranges = New ''empty block ranges for TSDB''"

subsection \<open>TSDBConfig\<close>

type_synonym DurationList = "Duration list"

record TSDBConfig =
  Dir :: string
  BlockRanges :: DurationList
  Retention :: Duration
  ShipInterval :: Duration
  ShipConcurrency :: go_int
  HeadCompactionInterval :: Duration
  HeadCompactionConcurrency :: go_int
  HeadCompactionIdleTimeout :: Duration
  HeadChunksWriteBufferSize :: go_int
  HeadChunksEndTimeVariance :: float64
  StripeSize :: go_int
  WALCompressionEnabled :: bool
  WALSegmentSizeBytes :: go_int
  FlushBlocksOnShutdown :: bool
  CloseIdleTSDBTimeout :: Duration
  MemorySnapshotOnShutdown :: bool
  HeadChunksWriteQueueSize :: go_int
  SeriesHashCacheMaxBytes :: go_uint64
  MaxTSDBOpeningConcurrencyOnStartup :: go_int
  KeepUserTSDBOpenOnShutdown :: bool
  CloseIdleTSDBInterval :: Duration
  OutOfOrderCapacityMax :: go_int
  HeadPostingsForMatchersCacheTTL :: Duration
  HeadPostingsForMatchersCacheSize :: go_int
  HeadPostingsForMatchersCacheForce :: bool

text \<open>
  \<^verbatim>\<open>func (cfg *TSDBConfig) Validate() error\<close>. The method has a pointer receiver, so the
  model returns the configuration it leaves behind next to the error. The two bounds
  \<^verbatim>\<open>chunks.MinWriteBufferSize\<close> and \<^verbatim>\<open>chunks.MaxWriteBufferSize\<close> are constants of the
  vendored Prometheus package and are parameters here.
\<close>

definition TSDBConfig_Validate ::
  "go_int \<Rightarrow> go_int \<Rightarrow> TSDBConfig \<Rightarrow> error option \<times> TSDBConfig" where
  "TSDBConfig_Validate MinWriteBufferSize MaxWriteBufferSize cfg =
    (if 0 <s ShipInterval cfg \<and> ShipConcurrency cfg <=s 0 then
       (Some errInvalidShipConcurrency, cfg)
     else if MaxTSDBOpeningConcurrencyOnStartup cfg <=s 0 then
       (Some errInvalidOpeningConcurrency, cfg)
     else if HeadCompactionInterval cfg <=s 0 \<or> 15 * Minute <s HeadCompactionInterval cfg then
       (Some errInvalidCompactionInterval, cfg)
     else if HeadCompactionConcurrency cfg <=s 0 then
       (Some errInvalidCompactionConcurrency, cfg)
     else if HeadChunksWriteBufferSize cfg <s MinWriteBufferSize
           \<or> MaxWriteBufferSize <s HeadChunksWriteBufferSize cfg
           \<or> go_rem (HeadChunksWriteBufferSize cfg) 1024 \<noteq> 0 then
       (Some (Errorf ''head chunks write buffer size must be a multiple of 1024 between %d and %d''
                [MinWriteBufferSize, MaxWriteBufferSize]), cfg)
     else if StripeSize cfg <=s 1 \<or> (StripeSize cfg AND (StripeSize cfg - 1)) \<noteq> 0 then
       (Some errInvalidStripeSize, cfg)
     else if length (BlockRanges cfg) = 0 then
       (Some errEmptyBlockranges, cfg)
     else if WALSegmentSizeBytes cfg <=s 0 then
       (Some errInvalidWALSegmentSizeBytes, cfg)
     else (None, cfg))"

text \<open>\<^verbatim>\<open>func (cfg *TSDBConfig) IsBlocksShippingEnabled() bool\<close>\<close>

definition IsBlocksShippingEnabled :: "TSDBConfig \<Rightarrow> bool" where
  "IsBlocksShippingEnabled cfg = (0 <s ShipInterval cfg)"

subsection \<open>BucketStoreConfig\<close>

definition consistencyDelayFlag :: string where
  "consistencyDelayFlag = ''blocks-storage.bucket-store.consistency-delay''"

record BucketIndexConfig =
  Enabled :: bool
  UpdateOnErrorInterval :: Duration
  IdleTimeout :: Duration
  MaxStalePeriod :: Duration

text \<open>
  \<^verbatim>\<open>IndexCacheConfig\<close>, \<^verbatim>\<open>ChunksCacheConfig\<close>, \<^verbatim>\<open>MetadataCacheConfig\<close> and
  \<^verbatim>\<open>indexheader.Config\<close> are declared in other files: their types are the parameters
  \<open>'ic\<close>, \<open>'cc\<close>, \<open>'mc\<close> and \<open>'ih\<close>. The field \<^verbatim>\<open>SeriesHashCacheMaxBytes\<close> carries the
  record's name as a prefix, \<open>TSDBConfig\<close> having a field of the same name.
\<close>

record ('ic, 'cc, 'mc, 'ih) BucketStoreConfig =
  SyncDir :: string
  SyncInterval :: Duration
  MaxConcurrent :: go_int
  TenantSyncConcurrency :: go_int
  BlockSyncConcurrency :: go_int
  MetaSyncConcurrency :: go_int
  DeprecatedConsistencyDelay :: Duration
  IndexCache :: 'ic
  ChunksCache :: 'cc
  MetadataCache :: 'mc
  IgnoreDeletionMarksDelay :: Duration
  BucketIndex :: BucketIndexConfig
  IgnoreBlocksWithin :: Duration
  MaxChunkPoolBytes :: go_uint64
  ChunkPoolMinBucketSizeBytes :: go_int
  ChunkPoolMaxBucketSizeBytes :: go_int
  BucketStore_SeriesHashCacheMaxBytes :: go_uint64
  IndexHeaderLazyLoadingEnabled :: bool
  IndexHeaderLazyLoadingIdleTimeout :: Duration
  PartitionerMaxGapBytes :: go_uint64
  PostingOffsetsInMemSampling :: go_int
  IndexHeader :: 'ih
  StreamingBatchSize :: go_int

text \<open>
  \<^verbatim>\<open>func (cfg *BucketStoreConfig) Validate(logger log.Logger) error\<close>. The validators of
  the three cache configurations and \<^verbatim>\<open>util.WarnDeprecatedConfig\<close> live outside this file
  and are parameters: a validator maps its configuration to the error it returns, the
  warning maps the flag's name and the logger to the logger after the warning. The model
  returns the error together with the logger it leaves behind.
\<close>

definition BucketStoreConfig_Validate ::
  "('ic \<Rightarrow> error option) \<Rightarrow> ('cc \<Rightarrow> error option) \<Rightarrow> ('mc \<Rightarrow> error option) \<Rightarrow>
   (string \<Rightarrow> 'l \<Rightarrow> 'l) \<Rightarrow> ('ic, 'cc, 'mc, 'ih) BucketStoreConfig \<Rightarrow> 'l \<Rightarrow> error option \<times> 'l" where
  "BucketStoreConfig_Validate IndexCache_Validate ChunksCache_Validate MetadataCache_Validate
      WarnDeprecatedConfig cfg logger =
    (if StreamingBatchSize cfg <=s 0 then
       (Some errInvalidStreamingBatchSize, logger)
     else case IndexCache_Validate (IndexCache cfg) of
       Some err \<Rightarrow> (Some (Wrap err ''index-cache configuration''), logger)
     | None \<Rightarrow>
     (case ChunksCache_Validate (ChunksCache cfg) of
       Some err \<Rightarrow> (Some (Wrap err ''chunks-cache configuration''), logger)
     | None \<Rightarrow>
     (case MetadataCache_Validate (MetadataCache cfg) of
       Some err \<Rightarrow> (Some (Wrap err ''metadata-cache configuration''), logger)
     | None \<Rightarrow>
     (if 0 <s DeprecatedConsistencyDelay cfg then
        (None, WarnDeprecatedConfig consistencyDelayFlag logger)
      else (None, logger)))))"

subsection \<open>BlocksStorageConfig\<close>

text \<open>\<^verbatim>\<open>bucket.Config\<close> belongs to another package: its type is the parameter \<open>'b\<close>.\<close>

record ('b, 'ic, 'cc, 'mc, 'ih) BlocksStorageConfig =
  Bucket :: 'b
  BucketStore :: "('ic, 'cc, 'mc, 'ih) BucketStoreConfig"
  TSDB :: TSDBConfig

text \<open>
  \<^verbatim>\<open>func (cfg *BlocksStorageConfig) Validate(logger log.Logger) error\<close>, with
  \<^verbatim>\<open>bucket.Config.Validate\<close> as one more parameter.
\<close>

definition BlocksStorageConfig_Validate ::
  "('b \<Rightarrow> error option) \<Rightarrow>
   ('ic \<Rightarrow> error option) \<Rightarrow> ('cc \<Rightarrow> error option) \<Rightarrow> ('mc \<Rightarrow> error option) \<Rightarrow>
   (string \<Rightarrow> 'l \<Rightarrow> 'l) \<Rightarrow> go_int \<Rightarrow> go_int \<Rightarrow>
   ('b, 'ic, 'cc, 'mc, 'ih) BlocksStorageConfig \<Rightarrow> 'l \<Rightarrow> error option \<times> 'l" where
  "BlocksStorageConfig_Validate Bucket_Validate IndexCache_Validate ChunksCache_Validate
      MetadataCache_Validate WarnDeprecatedConfig MinWriteBufferSize MaxWriteBufferSize cfg logger =
    (case Bucket_Validate (Bucket cfg) of
       Some err \<Rightarrow> (Some err, logger)
     | None \<Rightarrow>
     (case fst (TSDBConfig_Validate MinWriteBufferSize MaxWriteBufferSize (TSDB cfg)) of
       Some err \<Rightarrow> (Some err, logger)
     | None \<Rightarrow>
       BucketStoreConfig_Validate IndexCache_Validate ChunksCache_Validate MetadataCache_Validate
         WarnDeprecatedConfig (BucketStore cfg) logger))"

subsection \<open>DurationList\<close>

text \<open>
  \<^verbatim>\<open>strings.Join\<close>, and \<^verbatim>\<open>strings.Split\<close> at a separator of one byte (the file only
  splits at a comma). Go strings are byte sequences, as \<open>string\<close> is here. \<open>Split\<close>
  returns one more piece than there are separators, so the empty string splits into the
  one empty piece, and a string without the separator into itself alone. The result is
  never the empty list: the \<open>[]\<close> branch of the inner case is there for totality only.
\<close>

fun Join :: "string list \<Rightarrow> string \<Rightarrow> string" where
  "Join [] sep = []"
| "Join [x] sep = x"
| "Join (x # y # ys) sep = x @ sep @ Join (y # ys) sep"

fun Split :: "string \<Rightarrow> char \<Rightarrow> string list" where
  "Split [] sep = [] # []"
| "Split (c # cs) sep =
     (if c = sep then [] # Split cs sep
      else (case Split cs sep of
              [] \<Rightarrow> [c] # []
            | piece # pieces \<Rightarrow> (c # piece) # pieces))"

text \<open>
  \<^verbatim>\<open>func (d *DurationList) String() string\<close>. \<^verbatim>\<open>time.Duration.String\<close> is the standard
  library's and a parameter.
\<close>

definition DurationList_String :: "(Duration \<Rightarrow> string) \<Rightarrow> DurationList \<Rightarrow> string" where
  "DurationList_String Duration_String d = Join (map Duration_String d) '',''"

text \<open>
  \<^verbatim>\<open>func (d *DurationList) Set(s string) error\<close>, with \<^verbatim>\<open>time.ParseDuration\<close> as a
  parameter. The list behind the receiver is first replaced by the empty list, then grows
  by one duration for each piece that parses; the first piece that does not parse ends the
  loop with its error, and the list keeps what was appended until then. The model returns
  the error and the list the receiver points to afterwards.
\<close>

fun Set_loop ::
  "(string \<Rightarrow> error + Duration) \<Rightarrow> string list \<Rightarrow> DurationList \<Rightarrow> error option \<times> DurationList" where
  "Set_loop ParseDuration [] d = (None, d)"
| "Set_loop ParseDuration (v # values) d =
     (case ParseDuration v of
        Inl err \<Rightarrow> (Some err, d)
      | Inr t \<Rightarrow> Set_loop ParseDuration values (d @ [t]))"

definition DurationList_Set ::
  "(string \<Rightarrow> error + Duration) \<Rightarrow> string \<Rightarrow> DurationList \<Rightarrow> error option \<times> DurationList" where
  "DurationList_Set ParseDuration s d = Set_loop ParseDuration (Split s CHR '','') []"

text \<open>\<^verbatim>\<open>func (d *DurationList) ToMilliseconds() []int64\<close>: Go's division truncates.\<close>

definition Milliseconds :: "Duration \<Rightarrow> 64 word" where
  "Milliseconds t = word_of_int (sint t sdiv 1000000)"

definition ToMilliseconds :: "DurationList \<Rightarrow> 64 word list" where
  "ToMilliseconds d = map Milliseconds d"

subsection \<open>Sample configurations\<close>

text \<open>
  The configuration that \<^verbatim>\<open>RegisterFlags\<close> installs when no flag is given on the command
  line (the default of every flag, the 2h default block range, Go's zero value for the two
  fields without a flag), with Prometheus' \<^verbatim>\<open>chunks.DefaultWriteBufferSize\<close> (4 MiB) and
  \<^verbatim>\<open>wlog.DefaultSegmentSize\<close> (128 MiB). The concrete evaluations below run
  \<open>TSDBConfig_Validate\<close> on it and on variants of it, with Prometheus' bounds
  \<^verbatim>\<open>MinWriteBufferSize = 64 * 1024\<close> and \<^verbatim>\<open>MaxWriteBufferSize = 8 * 1024 * 1024\<close>.
\<close>

definition sample_cfg :: TSDBConfig where
  "sample_cfg = \<lparr>
     Dir = ''./tsdb/'',
     BlockRanges = [2 * Hour],
     Retention = 13 * Hour,
     ShipInterval = 1 * Minute,
     ShipConcurrency = 10,
     HeadCompactionInterval = 1 * Minute,
     HeadCompactionConcurrency = 1,
     HeadCompactionIdleTimeout = 1 * Hour,
     HeadChunksWriteBufferSize = 4194304,
     HeadChunksEndTimeVariance = 0,
     StripeSize = 16384,
     WALCompressionEnabled = False,
     WALSegmentSizeBytes = 134217728,
     FlushBlocksOnShutdown = False,
     CloseIdleTSDBTimeout = 13 * Hour,
     MemorySnapshotOnShutdown = False,
     HeadChunksWriteQueueSize = 1000000,
     SeriesHashCacheMaxBytes = 1073741824,
     MaxTSDBOpeningConcurrencyOnStartup = 10,
     KeepUserTSDBOpenOnShutdown = False,
     CloseIdleTSDBInterval = 0,
     OutOfOrderCapacityMax = 32,
     HeadPostingsForMatchersCacheTTL = 10 * Second,
     HeadPostingsForMatchersCacheSize = 100,
     HeadPostingsForMatchersCacheForce = False \<rparr>"

text \<open>Shipping switched off (\<^verbatim>\<open>ShipInterval = 0\<close>) and no ship concurrency.\<close>

definition cfg_shipping_disabled :: TSDBConfig where
  "cfg_shipping_disabled = sample_cfg\<lparr>ShipInterval := 0, ShipConcurrency := 0\<rparr>"

text \<open>An out-of-order capacity of zero, outside the documented range.\<close>

definition cfg_ooo_zero :: TSDBConfig where
  "cfg_ooo_zero = sample_cfg\<lparr>OutOfOrderCapacityMax := 0\<rparr>"

text \<open>
  The defaults that \<^verbatim>\<open>BucketStoreConfig.RegisterFlags\<close> installs, the sub-configurations
  of other files left without content.
\<close>

definition sample_bucket_store_cfg :: "(unit, unit, unit, unit) BucketStoreConfig" where
  "sample_bucket_store_cfg = \<lparr>
     SyncDir = ''./tsdb-sync/'',
     SyncInterval = 15 * Minute,
     MaxConcurrent = 100,
     TenantSyncConcurrency = 10,
     BlockSyncConcurrency = 20,
     MetaSyncConcurrency = 20,
     DeprecatedConsistencyDelay = 0,
     IndexCache = (),
     ChunksCache = (),
     MetadataCache = (),
     IgnoreDeletionMarksDelay = Hour * 1,
     BucketIndex = \<lparr>Enabled = True, UpdateOnErrorInterval = Minute, IdleTimeout = Hour,
                     MaxStalePeriod = Hour\<rparr>,
     IgnoreBlocksWithin = 10 * Hour,
     MaxChunkPoolBytes = 2147483648,
     ChunkPoolMinBucketSizeBytes = 16000,
     ChunkPoolMaxBucketSizeBytes = 50000000,
     BucketStore_SeriesHashCacheMaxBytes = 1073741824,
     IndexHeaderLazyLoadingEnabled = True,
     IndexHeaderLazyLoadingIdleTimeout = 60 * Minute,
     PartitionerMaxGapBytes = 524288,
     PostingOffsetsInMemSampling = 32,
     IndexHeader = (),
     StreamingBatchSize = 5000 \<rparr>"

definition sample_blocks_storage_cfg :: "(unit, unit, unit, unit, unit) BlocksStorageConfig" where
  "sample_blocks_storage_cfg =
     \<lparr>Bucket = (), BucketStore = sample_bucket_store_cfg, TSDB = sample_cfg\<rparr>"

text \<open>
  The values of Go's \<^verbatim>\<open>time.Duration.String\<close> and \<^verbatim>\<open>time.ParseDuration\<close> at the three
  durations 2h, 1m30s and 0, as a finite table for the concrete evaluations; a string
  outside the table is taken not to parse. Nothing is said about these two functions
  elsewhere.
\<close>

definition table_Duration_String :: "Duration \<Rightarrow> string" where
  "table_Duration_String v =
     (if v = 2 * Hour then ''2h0m0s'' else if v = 90 * Second then ''1m30s'' else ''0s'')"

definition table_ParseDuration :: "string \<Rightarrow> error + Duration" where
  "table_ParseDuration s =
     (if s = ''2h0m0s'' then Inr (2 * Hour)
      else if s = ''1m30s'' then Inr (90 * Second)
      else if s = ''0s'' then Inr 0
      else Inl (New (''time: invalid duration '' @ [CHR 0x22] @ s @ [CHR 0x22])))"

section \<open>Arithmetic behind the checks\<close>

lemmas err_defs =
  errInvalidShipConcurrency_def errInvalidOpeningConcurrency_def
  errInvalidCompactionInterval_def errInvalidCompactionConcurrency_def
  errInvalidWALSegmentSizeBytes_def errInvalidStripeSize_def
  errInvalidStreamingBatchSize_def errEmptyBlockranges_def

lemma and_even_odd_nat: "(2 * m) AND (2 * k + 1) = 2 * (m AND k)" for m k :: nat
  by (simp add: and_nat_rec [of "2 * m" "2 * k + 1"] and_nat_rec[of "2*m" "Suc (2 * k)"])

lemma and_odd_even_nat: "(2 * m + 1) AND (2 * m) = 2 * m" for m :: nat
  by (simp add: and_nat_rec [of "Suc (2 * m)" "2 * m"])

lemma pow2_double_iff: "0 < m \<Longrightarrow> (\<exists>k. 2 * m = 2 ^ k) \<longleftrightarrow> (\<exists>k. m = 2 ^ k)" for m :: nat
proof
  assume "0 < m" and "\<exists>k. 2 * m = 2 ^ k"
  then obtain k where k: "2 * m = 2 ^ k" by blast
  show "\<exists>k. m = 2 ^ k"
  proof (cases k)
    case 0
    with k show ?thesis by simp
  next
    case (Suc j)
    with k have "m = 2 ^ j" by simp
    then show ?thesis ..
  qed
next
  assume "\<exists>k. m = 2 ^ k"
  then obtain k where "m = 2 ^ k" ..
  then have "2 * m = 2 ^ Suc k" by simp
  then show "\<exists>k. 2 * m = 2 ^ k" ..
qed

lemma pow2_odd_iff: "(\<exists>k. 2 * m + 1 = 2 ^ k) \<longleftrightarrow> m = 0" for m :: nat
proof
  assume "\<exists>k. 2 * m + 1 = 2 ^ k"
  then obtain k where k: "2 * m + 1 = 2 ^ k" ..
  show "m = 0"
  proof (cases k)
    case 0
    with k show ?thesis by simp
  next
    case (Suc j)
    with k have "2 * m + 1 = 2 * 2 ^ j" by simp
    then have "even (2 * m + 1)" by (metis dvd_triv_left)
    then show ?thesis by simp
  qed
next
  assume "m = 0"
  then have "2 * m + 1 = 2 ^ 0" by simp
  then show "\<exists>k. 2 * m + 1 = 2 ^ k" ..
qed

lemma nat_and_pred_pow2:
  "0 < n \<Longrightarrow> (n AND (n - 1) = 0 \<longleftrightarrow> (\<exists>k. n = 2 ^ k))" for n :: nat
proof (induction n rule: less_induct)
  case (less n)
  show ?case
  proof (cases "even n")
    case True
    then obtain m where m: "n = 2 * m" by (elim evenE)
    with less.prems have mpos: "0 < m" by simp
    have pred: "n - 1 = 2 * (m - 1) + 1" using m mpos by simp
    have "n AND (n - 1) = 2 * (m AND (m - 1))"
      unfolding pred unfolding m by (rule and_even_odd_nat)
    moreover have "(m AND (m - 1) = 0) \<longleftrightarrow> (\<exists>k. m = 2 ^ k)"
      using less.IH [of m] m mpos by simp
    ultimately show ?thesis 
      using pow2_double_iff [OF mpos] m by simp
  next
    case False
    then obtain m where m: "n = 2 * m + 1" by (elim oddE)
    have "n AND (n - 1) = 2 * m"
      using and_odd_even_nat [of m] unfolding m by simp 
    then show ?thesis using pow2_odd_iff [of m] unfolding m by simp
  qed
qed

lemma go_rem_1024: "go_rem x 1024 \<noteq> 0 \<longleftrightarrow> \<not> 1024 dvd sint x"
proof -
  let ?r = "sint x smod (1024 :: int)"
  have r: "?r = sgn (sint x) * (\<bar>sint x\<bar> mod 1024)"
    by (simp add: signed_modulo_int_def)
  define m where "m = \<bar>sint x\<bar> mod 1024"
  have m: "0 \<le> m" "m < 1024" by (simp_all add: m_def)
  have r': "?r = sgn (sint x) * m" unfolding r m_def ..
  have bound: "- 1024 < ?r" "?r < 1024"
    unfolding r' using m by (simp_all add: sgn_if)
  have "(word_of_int ?r :: 64 word) = 0 \<longleftrightarrow> ?r = 0"
  proof
    assume "(word_of_int ?r :: 64 word) = 0"
    then have "2 ^ 64 dvd ?r" by (simp add: word_of_int_eq_0_iff)
    then obtain q where q: "?r = 2 ^ 64 * q" ..
    with bound have "q = 0" by simp
    with q show "?r = 0" by simp
  qed simp
  moreover have "?r = 0 \<longleftrightarrow> 1024 dvd sint x"
    unfolding r by (simp add: sgn_if mod_eq_0_iff_dvd)
  ultimately show ?thesis by (simp add: go_rem_def)
qed

lemma word_and_pred_pow2:
  fixes x :: "64 word"
  assumes "1 < sint x"
  shows "x AND (x - 1) = 0 \<longleftrightarrow> (\<exists>k. sint x = 2 ^ k)"
proof -
  have nonneg: "0 \<le> sint x" using assms by simp
  have "uint x = uint (word_of_int (sint x) :: 64 word)" by simp
  also have "\<dots> = take_bit 64 (sint x)" by (simp only: unsigned_of_int len_bit0 len_num1 mult_numeral_left_semiring_numeral)  simp
  also have "\<dots> = sint x"
    using nonneg sint_lt [of x] by (simp add: take_bit_int_eq_self)
  finally have su: "sint x = uint x" by simp
  have x0: "x \<noteq> 0" using assms by auto
  have un: "int (unat x) = sint x" using su by simp
  have upos: "0 < unat x" using x0 by (simp add: unat_gt_0)
  have pred: "unat (x - 1) = unat x - 1" using x0 by (simp add: unat_minus_one)
  have "x AND (x - 1) = 0 \<longleftrightarrow> unat (x AND (x - 1)) = 0"
    by (simp add: unat_eq_0)
  also have "\<dots> \<longleftrightarrow> unat x AND (unat x - 1) = 0"
    by (simp add: unsigned_and_eq pred)
  also have "\<dots> \<longleftrightarrow> (\<exists>k. unat x = 2 ^ k)"
    by (rule nat_and_pred_pow2 [OF upos])
  also have "\<dots> \<longleftrightarrow> (\<exists>k. sint x = 2 ^ k)"
  proof
    assume "\<exists>k. unat x = 2 ^ k"
    then obtain k where "unat x = 2 ^ k" ..
    then have "int (unat x) = 2 ^ k" by simp
    then have "sint x = 2 ^ k" using un by simp
    then show "\<exists>k. sint x = 2 ^ k" ..
  next
    assume "\<exists>k. sint x = 2 ^ k"
    then obtain k where "sint x = 2 ^ k" ..
    then have "int (unat x) = int (2 ^ k)" using un by simp
    then have "unat x = 2 ^ k" by (simp only: of_nat_eq_iff)
    then show "\<exists>k. unat x = 2 ^ k" ..
  qed
  finally show ?thesis .
qed

lemmas time_defs = Nanosecond_def Microsecond_def Millisecond_def Second_def Minute_def Hour_def

lemma fifteen_minutes: "sint (15 * Minute) = 900000000000"
  by (simp add: time_defs)

lemma Validate_sint:
  "TSDBConfig_Validate mn mx cfg =
    (if 0 < sint (ShipInterval cfg) \<and> sint (ShipConcurrency cfg) \<le> 0 then
       (Some errInvalidShipConcurrency, cfg)
     else if sint (MaxTSDBOpeningConcurrencyOnStartup cfg) \<le> 0 then
       (Some errInvalidOpeningConcurrency, cfg)
     else if sint (HeadCompactionInterval cfg) \<le> 0
           \<or> 900000000000 < sint (HeadCompactionInterval cfg) then
       (Some errInvalidCompactionInterval, cfg)
     else if sint (HeadCompactionConcurrency cfg) \<le> 0 then
       (Some errInvalidCompactionConcurrency, cfg)
     else if sint (HeadChunksWriteBufferSize cfg) < sint mn
           \<or> sint mx < sint (HeadChunksWriteBufferSize cfg)
           \<or> \<not> 1024 dvd sint (HeadChunksWriteBufferSize cfg) then
       (Some (Errorf ''head chunks write buffer size must be a multiple of 1024 between %d and %d''
                [mn, mx]), cfg)
     else if \<not> (\<exists>k\<ge>1. sint (StripeSize cfg) = 2 ^ k) then
       (Some errInvalidStripeSize, cfg)
     else if BlockRanges cfg = [] then
       (Some errEmptyBlockranges, cfg)
     else if sint (WALSegmentSizeBytes cfg) \<le> 0 then
       (Some errInvalidWALSegmentSizeBytes, cfg)
     else (None, cfg))"
proof -
  have stripe: "(StripeSize cfg <=s 1 \<or> (StripeSize cfg AND (StripeSize cfg - 1)) \<noteq> 0)
      \<longleftrightarrow> \<not> (\<exists>k\<ge>1. sint (StripeSize cfg) = 2 ^ k)"
  proof (cases "1 < sint (StripeSize cfg)")
    case True
    have "(\<exists>k. sint (StripeSize cfg) = 2 ^ k) \<longleftrightarrow> (\<exists>k\<ge>1. sint (StripeSize cfg) = 2 ^ k)"
    proof
      assume "\<exists>k. sint (StripeSize cfg) = 2 ^ k"
      then obtain k where k: "sint (StripeSize cfg) = 2 ^ k" ..
      with True have "k \<noteq> 0" by (cases k) auto
      then have "1 \<le> k" by simp
      with k show "\<exists>k\<ge>1. sint (StripeSize cfg) = 2 ^ k" by blast
    qed blast
    then show ?thesis
      using True word_and_pred_pow2 [OF True] by (simp add: word_sle_eq)
  next
    case False
    have "\<not> (\<exists>k\<ge>1. sint (StripeSize cfg) = 2 ^ k)"
    proof
      assume "\<exists>k\<ge>1. sint (StripeSize cfg) = 2 ^ k"
      then obtain k where k: "1 \<le> k" "sint (StripeSize cfg) = 2 ^ k" by blast
      then obtain j where "k = Suc j" by (cases k) auto
      with k have "sint (StripeSize cfg) = 2 * 2 ^ j" by simp
      moreover have "(1::int) \<le> 2 ^ j" by simp
      ultimately show False using False by simp
    qed
    then show ?thesis using False by (simp add: word_sle_eq)
  qed
  show ?thesis
    unfolding TSDBConfig_Validate_def stripe go_rem_1024
    by (simp only: word_sle_eq word_sless_alt fifteen_minutes sint_0 length_0_conv)
qed

lemma Validate_sample_cfg: "TSDBConfig_Validate 65536 8388608 sample_cfg = (None, sample_cfg)"
  by (simp add: TSDBConfig_Validate_def sample_cfg_def time_defs go_rem_def signed_modulo_int_def
        word_sle_eq word_sless_alt)

section \<open>TSDBConfig.Validate\<close>

text \<open>
  C1. The stripe size is accepted only if it is a power of two greater than 1. Once the
  checks that come before the stripe-size check pass, \<open>Validate\<close> returns
  \<open>errInvalidStripeSize\<close> exactly when the value of \<open>StripeSize\<close> is not \<open>2 ^ k\<close> for
  some \<open>k \<ge> 1\<close>; in particular it does for 0, 1 and 3, and it does not for 2 and 16384.
\<close>

theorem StripeSize_power_of_two:
  assumes "\<not> (0 < sint (ShipInterval cfg) \<and> sint (ShipConcurrency cfg) \<le> 0)"
    and "0 < sint (MaxTSDBOpeningConcurrencyOnStartup cfg)"
    and "0 < sint (HeadCompactionInterval cfg)"
    and "sint (HeadCompactionInterval cfg) \<le> sint (15 * Minute)"
    and "0 < sint (HeadCompactionConcurrency cfg)"
    and "sint mn \<le> sint (HeadChunksWriteBufferSize cfg)"
    and "sint (HeadChunksWriteBufferSize cfg) \<le> sint mx"
    and "1024 dvd sint (HeadChunksWriteBufferSize cfg)"
  shows "(fst (TSDBConfig_Validate mn mx cfg) = Some errInvalidStripeSize
            \<longleftrightarrow> \<not> (\<exists>k\<ge>1. sint (StripeSize cfg) = 2 ^ k))
       \<and> (StripeSize cfg \<in> {0, 1, 3} \<longrightarrow>
            fst (TSDBConfig_Validate mn mx cfg) = Some errInvalidStripeSize)
       \<and> (StripeSize cfg \<in> {2, 16384} \<longrightarrow>
            fst (TSDBConfig_Validate mn mx cfg) \<noteq> Some errInvalidStripeSize)"
proof -
  have main: "fst (TSDBConfig_Validate mn mx cfg) = Some errInvalidStripeSize
            \<longleftrightarrow> \<not> (\<exists>k\<ge>1. sint (StripeSize cfg) = 2 ^ k)"
    using assms by (auto simp add: Validate_sint err_defs fifteen_minutes)
  have not_pow: "\<not> (\<exists>k\<ge>1. (n::int) = 2 ^ k)" if "n = 0 \<or> n = 1 \<or> n = 3" for n
  proof
    assume "\<exists>k\<ge>1. n = 2 ^ k"
    then obtain k where k: "1 \<le> k" "n = 2 ^ k" by blast
    then obtain j where "k = Suc j" by (cases k) auto
    with k have "n = 2 * 2 ^ j" by simp
    then have "even n" and "n \<noteq> 0" by simp_all
    with that show False by auto
  qed
  have p2: "\<exists>k\<ge>1. (2::int) = 2 ^ k" by (rule exI [of _ 1]) simp
  have p14: "\<exists>k\<ge>1. (16384::int) = 2 ^ k" by (rule exI [of _ 14]) simp
  have rej: "StripeSize cfg \<in> {0, 1, 3} \<longrightarrow> \<not> (\<exists>k\<ge>1. sint (StripeSize cfg) = 2 ^ k)"
    using not_pow [of "sint (StripeSize cfg)"] by auto
  have acc: "StripeSize cfg \<in> {2, 16384} \<longrightarrow> (\<exists>k\<ge>1. sint (StripeSize cfg) = 2 ^ k)"
    using p2 p14 by auto
  show ?thesis using main rej acc by blast
qed

theorem StripeSize_power_of_two_witness:
  "fst (TSDBConfig_Validate 65536 8388608 (sample_cfg\<lparr>StripeSize := 3\<rparr>)) = Some errInvalidStripeSize
   \<and> fst (TSDBConfig_Validate 65536 8388608 (sample_cfg\<lparr>StripeSize := 12\<rparr>)) = Some errInvalidStripeSize
   \<and> fst (TSDBConfig_Validate 65536 8388608 (sample_cfg\<lparr>StripeSize := 16384\<rparr>)) \<noteq> Some errInvalidStripeSize"
proof -
  have n12: "\<not> (\<exists>k\<ge>1. (12::int) = 2 ^ k)"
  proof
    assume "\<exists>k\<ge>1. (12::int) = 2 ^ k"
    then obtain k where k: "(12::int) = 2 ^ k" by blast
    have "k < 4" using k power_increasing [of 4 k "2::int"] by (cases "k < 4") auto
    then have "k \<in> {0, 1, 2, 3}" by auto
    with k show False by auto
  qed
  have p14: "\<exists>k\<ge>Suc 0. (2::int) ^ k = 16384" by (rule exI [of _ 14]) simp
  have a: "fst (TSDBConfig_Validate 65536 8388608 (sample_cfg\<lparr>StripeSize := 3\<rparr>)) = Some errInvalidStripeSize"
    using StripeSize_power_of_two [of "sample_cfg\<lparr>StripeSize := 3\<rparr>" 65536 8388608]
    by (simp add: sample_cfg_def time_defs)
  have b: "fst (TSDBConfig_Validate 65536 8388608 (sample_cfg\<lparr>StripeSize := 12\<rparr>)) = Some errInvalidStripeSize"
    using StripeSize_power_of_two [of "sample_cfg\<lparr>StripeSize := 12\<rparr>" 65536 8388608] n12
    by (simp add: sample_cfg_def time_defs)
  have c: "fst (TSDBConfig_Validate 65536 8388608 (sample_cfg\<lparr>StripeSize := 16384\<rparr>)) \<noteq> Some errInvalidStripeSize"
    using StripeSize_power_of_two [of "sample_cfg\<lparr>StripeSize := 16384\<rparr>" 65536 8388608] p14
    by (simp add: sample_cfg_def time_defs)
  show ?thesis using a b c by simp
qed

text \<open>
  C2. The claim is that \<open>Validate\<close> returns an error whenever \<open>OutOfOrderCapacityMax\<close> is
  outside 1--255. \<open>Validate\<close> has no check of that field: the default configuration with a
  capacity of 0, of 256 or of -1 is accepted.
\<close>

theorem OutOfOrderCapacityMax_out_of_range_accepted:
  "sint (OutOfOrderCapacityMax cfg_ooo_zero) = 0
   \<and> fst (TSDBConfig_Validate 65536 8388608 cfg_ooo_zero) = None
   \<and> fst (TSDBConfig_Validate 65536 8388608 (sample_cfg\<lparr>OutOfOrderCapacityMax := 256\<rparr>)) = None
   \<and> fst (TSDBConfig_Validate 65536 8388608 (sample_cfg\<lparr>OutOfOrderCapacityMax := - 1\<rparr>)) = None"
  by (simp add: cfg_ooo_zero_def TSDBConfig_Validate_def sample_cfg_def time_defs go_rem_def
        signed_modulo_int_def word_sle_eq word_sless_alt)

text \<open>
  C2, as the code has it: the result of \<open>Validate\<close> does not depend on
  \<open>OutOfOrderCapacityMax\<close>. Whatever value the field is given, \<open>Validate\<close> returns what
  it returns for the other fields.
\<close>

theorem Validate_ignores_OutOfOrderCapacityMax:
  "fst (TSDBConfig_Validate mn mx (cfg\<lparr>OutOfOrderCapacityMax := v\<rparr>))
     = fst (TSDBConfig_Validate mn mx cfg)"
  by (simp add: TSDBConfig_Validate_def)

text \<open>
  C3. The head compaction interval must lie in (0, 15 minutes]. When the two checks before
  it pass (shipping is off or the ship concurrency is positive, and the opening concurrency
  is positive), \<open>Validate\<close> returns \<open>errInvalidCompactionInterval\<close> exactly when the
  interval is at most 0 or more than 15 minutes.
\<close>

theorem HeadCompactionInterval_bounds:
  assumes "\<not> (0 < sint (ShipInterval cfg) \<and> sint (ShipConcurrency cfg) \<le> 0)"
    and "0 < sint (MaxTSDBOpeningConcurrencyOnStartup cfg)"
  shows "fst (TSDBConfig_Validate mn mx cfg) = Some errInvalidCompactionInterval
           \<longleftrightarrow> sint (HeadCompactionInterval cfg) \<le> 0
               \<or> sint (15 * Minute) < sint (HeadCompactionInterval cfg)"
  using assms by (auto simp add: Validate_sint err_defs fifteen_minutes)

theorem HeadCompactionInterval_bounds_witness:
  "fst (TSDBConfig_Validate 65536 8388608 (sample_cfg\<lparr>HeadCompactionInterval := 0\<rparr>))
     = Some errInvalidCompactionInterval
   \<and> fst (TSDBConfig_Validate 65536 8388608 (sample_cfg\<lparr>HeadCompactionInterval := 15 * Minute + 1\<rparr>))
     = Some errInvalidCompactionInterval
   \<and> fst (TSDBConfig_Validate 65536 8388608 (sample_cfg\<lparr>HeadCompactionInterval := 15 * Minute\<rparr>))
     \<noteq> Some errInvalidCompactionInterval"
proof -
  note t = HeadCompactionInterval_bounds [where mn = 65536 and mx = 8388608]
  have a: "fst (TSDBConfig_Validate 65536 8388608 (sample_cfg\<lparr>HeadCompactionInterval := 0\<rparr>))
     = Some errInvalidCompactionInterval"
    using t [of "sample_cfg\<lparr>HeadCompactionInterval := 0\<rparr>"]
    by (simp add: sample_cfg_def time_defs)
  have b: "fst (TSDBConfig_Validate 65536 8388608 (sample_cfg\<lparr>HeadCompactionInterval := 15 * Minute + 1\<rparr>))
     = Some errInvalidCompactionInterval"
    using t [of "sample_cfg\<lparr>HeadCompactionInterval := 15 * Minute + 1\<rparr>"]
    by (simp add: sample_cfg_def time_defs)
  have c: "fst (TSDBConfig_Validate 65536 8388608 (sample_cfg\<lparr>HeadCompactionInterval := 15 * Minute\<rparr>))
     \<noteq> Some errInvalidCompactionInterval"
    using t [of "sample_cfg\<lparr>HeadCompactionInterval := 15 * Minute\<rparr>"]
    by (simp add: sample_cfg_def time_defs)
  show ?thesis using a b c by simp
qed

text \<open>
  C4. The claim is that \<open>Validate\<close> returns \<open>errInvalidShipConcurrency\<close> for every
  configuration with \<open>ShipConcurrency \<le> 0\<close>. The check is guarded by \<open>ShipInterval > 0\<close>:
  with shipping switched off, a ship concurrency of 0 is accepted.
\<close>

theorem ShipConcurrency_zero_accepted_without_shipping:
  "sint (ShipConcurrency cfg_shipping_disabled) \<le> 0
   \<and> fst (TSDBConfig_Validate 65536 8388608 cfg_shipping_disabled) = None"
  by (simp add: cfg_shipping_disabled_def TSDBConfig_Validate_def sample_cfg_def time_defs go_rem_def
        signed_modulo_int_def word_sle_eq word_sless_alt)

text \<open>
  C4, as the code has it: \<open>Validate\<close> returns \<open>errInvalidShipConcurrency\<close> exactly for
  the configurations with blocks shipping enabled (\<open>ShipInterval > 0\<close>) and
  \<open>ShipConcurrency \<le> 0\<close>.
\<close>

theorem ShipConcurrency_checked_when_shipping:
  "fst (TSDBConfig_Validate mn mx cfg) = Some errInvalidShipConcurrency
     \<longleftrightarrow> IsBlocksShippingEnabled cfg \<and> sint (ShipConcurrency cfg) \<le> 0"
  by (auto simp add: Validate_sint IsBlocksShippingEnabled_def word_sless_alt err_defs)

theorem ShipConcurrency_checked_when_shipping_witness:
  "IsBlocksShippingEnabled (sample_cfg\<lparr>ShipConcurrency := 0\<rparr>)
   \<and> sint (ShipConcurrency (sample_cfg\<lparr>ShipConcurrency := 0\<rparr>)) \<le> 0
   \<and> fst (TSDBConfig_Validate 65536 8388608 (sample_cfg\<lparr>ShipConcurrency := 0\<rparr>))
       = Some errInvalidShipConcurrency"
  using ShipConcurrency_checked_when_shipping [of 65536 8388608 "sample_cfg\<lparr>ShipConcurrency := 0\<rparr>"]
  by (simp add: sample_cfg_def time_defs IsBlocksShippingEnabled_def word_sless_alt)

text \<open>
  C5. The head chunks write buffer size must be a multiple of 1024 between the minimum and
  the maximum write buffer size. When the four checks before it pass, \<open>Validate\<close> returns
  the write-buffer-size error exactly when the size is below the minimum, above the maximum
  or not divisible by 1024.
\<close>

theorem HeadChunksWriteBufferSize_bounds:
  assumes "\<not> (0 < sint (ShipInterval cfg) \<and> sint (ShipConcurrency cfg) \<le> 0)"
    and "0 < sint (MaxTSDBOpeningConcurrencyOnStartup cfg)"
    and "0 < sint (HeadCompactionInterval cfg)"
    and "sint (HeadCompactionInterval cfg) \<le> sint (15 * Minute)"
    and "0 < sint (HeadCompactionConcurrency cfg)"
  shows "fst (TSDBConfig_Validate mn mx cfg)
           = Some (Errorf ''head chunks write buffer size must be a multiple of 1024 between %d and %d''
                     [mn, mx])
         \<longleftrightarrow> sint (HeadChunksWriteBufferSize cfg) < sint mn
             \<or> sint mx < sint (HeadChunksWriteBufferSize cfg)
             \<or> \<not> 1024 dvd sint (HeadChunksWriteBufferSize cfg)"
  using assms by (auto simp add: Validate_sint err_defs fifteen_minutes)

theorem HeadChunksWriteBufferSize_bounds_witness:
  "fst (TSDBConfig_Validate 65536 8388608 (sample_cfg\<lparr>HeadChunksWriteBufferSize := 1024\<rparr>))
     = Some (Errorf ''head chunks write buffer size must be a multiple of 1024 between %d and %d''
               [65536, 8388608])
   \<and> fst (TSDBConfig_Validate 65536 8388608 (sample_cfg\<lparr>HeadChunksWriteBufferSize := 16777216\<rparr>))
     = Some (Errorf ''head chunks write buffer size must be a multiple of 1024 between %d and %d''
               [65536, 8388608])
   \<and> fst (TSDBConfig_Validate 65536 8388608 (sample_cfg\<lparr>HeadChunksWriteBufferSize := 65537\<rparr>))
     = Some (Errorf ''head chunks write buffer size must be a multiple of 1024 between %d and %d''
               [65536, 8388608])
   \<and> fst (TSDBConfig_Validate 65536 8388608 (sample_cfg\<lparr>HeadChunksWriteBufferSize := 65536\<rparr>))
     \<noteq> Some (Errorf ''head chunks write buffer size must be a multiple of 1024 between %d and %d''
               [65536, 8388608])"
proof -
  note t = HeadChunksWriteBufferSize_bounds [where mn = 65536 and mx = 8388608]
  have a: "fst (TSDBConfig_Validate 65536 8388608 (sample_cfg\<lparr>HeadChunksWriteBufferSize := 1024\<rparr>))
     = Some (Errorf ''head chunks write buffer size must be a multiple of 1024 between %d and %d''
               [65536, 8388608])"
    using t [of "sample_cfg\<lparr>HeadChunksWriteBufferSize := 1024\<rparr>"]
    by (simp add: sample_cfg_def time_defs)
  have b: "fst (TSDBConfig_Validate 65536 8388608 (sample_cfg\<lparr>HeadChunksWriteBufferSize := 16777216\<rparr>))
     = Some (Errorf ''head chunks write buffer size must be a multiple of 1024 between %d and %d''
               [65536, 8388608])"
    using t [of "sample_cfg\<lparr>HeadChunksWriteBufferSize := 16777216\<rparr>"]
    by (simp add: sample_cfg_def time_defs)
  have c: "fst (TSDBConfig_Validate 65536 8388608 (sample_cfg\<lparr>HeadChunksWriteBufferSize := 65537\<rparr>))
     = Some (Errorf ''head chunks write buffer size must be a multiple of 1024 between %d and %d''
               [65536, 8388608])"
    using t [of "sample_cfg\<lparr>HeadChunksWriteBufferSize := 65537\<rparr>"]
    by (simp add: sample_cfg_def time_defs)
  have d: "fst (TSDBConfig_Validate 65536 8388608 (sample_cfg\<lparr>HeadChunksWriteBufferSize := 65536\<rparr>))
     \<noteq> Some (Errorf ''head chunks write buffer size must be a multiple of 1024 between %d and %d''
               [65536, 8388608])"
    using t [of "sample_cfg\<lparr>HeadChunksWriteBufferSize := 65536\<rparr>"]
    by (simp add: sample_cfg_def time_defs)
  show ?thesis using a b c d by simp
qed

text \<open>
  C6. An empty block-range list is rejected: when the six checks before it pass and
  \<open>BlockRanges\<close> is empty, \<open>Validate\<close> returns \<open>errEmptyBlockranges\<close>, whose message is
  "empty block ranges for TSDB".
\<close>

theorem empty_BlockRanges_rejected:
  assumes "\<not> (0 < sint (ShipInterval cfg) \<and> sint (ShipConcurrency cfg) \<le> 0)"
    and "0 < sint (MaxTSDBOpeningConcurrencyOnStartup cfg)"
    and "0 < sint (HeadCompactionInterval cfg)"
    and "sint (HeadCompactionInterval cfg) \<le> sint (15 * Minute)"
    and "0 < sint (HeadCompactionConcurrency cfg)"
    and "sint mn \<le> sint (HeadChunksWriteBufferSize cfg)"
    and "sint (HeadChunksWriteBufferSize cfg) \<le> sint mx"
    and "1024 dvd sint (HeadChunksWriteBufferSize cfg)"
    and "\<exists>k\<ge>1. sint (StripeSize cfg) = 2 ^ k"
    and "BlockRanges cfg = []"
  shows "fst (TSDBConfig_Validate mn mx cfg) = Some errEmptyBlockranges
         \<and> errEmptyBlockranges = New ''empty block ranges for TSDB''"
  using assms by (auto simp add: Validate_sint fifteen_minutes errEmptyBlockranges_def)

theorem empty_BlockRanges_rejected_witness:
  "BlockRanges (sample_cfg\<lparr>BlockRanges := []\<rparr>) = []
   \<and> fst (TSDBConfig_Validate 65536 8388608 (sample_cfg\<lparr>BlockRanges := []\<rparr>))
       = Some (New ''empty block ranges for TSDB'')"
proof -
  have p14: "\<exists>k\<ge>Suc 0. (16384::int) = 2 ^ k" by (rule exI [of _ 14]) simp
  show ?thesis
    using empty_BlockRanges_rejected [of "sample_cfg\<lparr>BlockRanges := []\<rparr>" 65536 8388608] p14
    by (simp add: sample_cfg_def time_defs)
qed

section \<open>BucketStoreConfig.Validate and BlocksStorageConfig.Validate\<close>

text \<open>
  C7. The streaming batch size must be greater than 0, and its check comes first: with
  \<open>StreamingBatchSize \<le> 0\<close>, \<open>Validate\<close> returns \<open>errInvalidStreamingBatchSize\<close> and
  leaves the logger alone, whatever the validators of the three caches would return and
  whatever the deprecated consistency delay is.
\<close>

theorem StreamingBatchSize_checked_first:
  assumes "sint (StreamingBatchSize cfg) \<le> 0"
  shows "BucketStoreConfig_Validate IndexCache_Validate ChunksCache_Validate MetadataCache_Validate
           WarnDeprecatedConfig cfg logger
         = (Some errInvalidStreamingBatchSize, logger)"
  using assms by (simp add: BucketStoreConfig_Validate_def word_sle_eq)

theorem StreamingBatchSize_checked_first_witness:
  "sint (StreamingBatchSize (sample_bucket_store_cfg\<lparr>StreamingBatchSize := 0\<rparr>)) \<le> 0
   \<and> BucketStoreConfig_Validate (\<lambda>c. Some (New ''index cache'')) (\<lambda>c. Some (New ''chunks cache''))
         (\<lambda>c. Some (New ''metadata cache'')) (\<lambda>flag l. flag # l)
         (sample_bucket_store_cfg\<lparr>StreamingBatchSize := 0, DeprecatedConsistencyDelay := Minute\<rparr>) []
       = (Some errInvalidStreamingBatchSize, [])"
  using StreamingBatchSize_checked_first
    [of "sample_bucket_store_cfg\<lparr>StreamingBatchSize := 0, DeprecatedConsistencyDelay := Minute\<rparr>"
        "\<lambda>c. Some (New ''index cache'')" "\<lambda>c. Some (New ''chunks cache'')"
        "\<lambda>c. Some (New ''metadata cache'')" "\<lambda>flag l. flag # l" "[]"]
  by (simp add: sample_bucket_store_cfg_def)

text \<open>
  C8. Top-level validation returns the first failure: with \<open>b\<close>, \<open>t\<close> and \<open>s\<close> the
  results of \<open>Bucket.Validate\<close>, \<open>TSDB.Validate\<close> and \<open>BucketStore.Validate\<close>, the result
  \<open>r\<close> of \<open>BlocksStorageConfig.Validate\<close> is \<open>nil\<close> exactly when all three are, and is
  otherwise the first of \<open>b\<close>, \<open>t\<close>, \<open>s\<close>, in that order, that is an error.
\<close>

theorem BlocksStorageConfig_Validate_first_failure:
  "(let b = Bucket_Validate (Bucket cfg);
        t = fst (TSDBConfig_Validate mn mx (TSDB cfg));
        s = fst (BucketStoreConfig_Validate IndexCache_Validate ChunksCache_Validate
                   MetadataCache_Validate WarnDeprecatedConfig (BucketStore cfg) logger);
        r = fst (BlocksStorageConfig_Validate Bucket_Validate IndexCache_Validate
                   ChunksCache_Validate MetadataCache_Validate WarnDeprecatedConfig mn mx cfg logger)
    in (r = None \<longleftrightarrow> b = None \<and> t = None \<and> s = None)
       \<and> r = (case List.find (\<lambda>e. e \<noteq> None) [b, t, s] of None \<Rightarrow> None | Some e \<Rightarrow> e))"
  unfolding BlocksStorageConfig_Validate_def Let_def
  by (auto split: option.splits)

theorem BlocksStorageConfig_Validate_first_failure_witness:
  "fst (BlocksStorageConfig_Validate (\<lambda>c. None) (\<lambda>c. None) (\<lambda>c. None) (\<lambda>c. None) (\<lambda>flag l. flag # l)
          65536 8388608 sample_blocks_storage_cfg []) = None
   \<and> fst (BlocksStorageConfig_Validate (\<lambda>c. None) (\<lambda>c. None) (\<lambda>c. None) (\<lambda>c. None) (\<lambda>flag l. flag # l)
          65536 8388608
          (sample_blocks_storage_cfg\<lparr>TSDB := sample_cfg\<lparr>StripeSize := 3\<rparr>,
             BucketStore := sample_bucket_store_cfg\<lparr>StreamingBatchSize := 0\<rparr>\<rparr>) [])
       = Some errInvalidStripeSize
   \<and> fst (BlocksStorageConfig_Validate (\<lambda>c. Some (New ''bucket'')) (\<lambda>c. None) (\<lambda>c. None) (\<lambda>c. None)
          (\<lambda>flag l. flag # l) 65536 8388608
          (sample_blocks_storage_cfg\<lparr>TSDB := sample_cfg\<lparr>StripeSize := 3\<rparr>\<rparr>) [])
       = Some (New ''bucket'')"
proof -
  have tsdb_ok: "fst (TSDBConfig_Validate 65536 8388608 sample_cfg) = None"
    by (simp add: Validate_sample_cfg)
  have tsdb_bad: "fst (TSDBConfig_Validate 65536 8388608 (sample_cfg\<lparr>StripeSize := 3\<rparr>))
      = Some errInvalidStripeSize"
    by (simp add: TSDBConfig_Validate_def sample_cfg_def time_defs go_rem_def signed_modulo_int_def
        word_sle_eq word_sless_alt)
  have store_ok: "fst (BucketStoreConfig_Validate (\<lambda>c. None) (\<lambda>c. None) (\<lambda>c. None)
      (\<lambda>flag l. flag # l) sample_bucket_store_cfg []) = None"
    by (simp add: BucketStoreConfig_Validate_def sample_bucket_store_cfg_def word_sle_eq word_sless_alt)
  have a: "fst (BlocksStorageConfig_Validate (\<lambda>c. None) (\<lambda>c. None) (\<lambda>c. None) (\<lambda>c. None) (\<lambda>flag l. flag # l)
          65536 8388608 sample_blocks_storage_cfg []) = None"
    using BlocksStorageConfig_Validate_first_failure
      [of "\<lambda>c. None" sample_blocks_storage_cfg 65536 8388608 "\<lambda>c. None" "\<lambda>c. None" "\<lambda>c. None"
          "\<lambda>flag l. flag # l" "[]"] tsdb_ok store_ok
    by (simp add: sample_blocks_storage_cfg_def Let_def)
  have b: "fst (BlocksStorageConfig_Validate (\<lambda>c. None) (\<lambda>c. None) (\<lambda>c. None) (\<lambda>c. None) (\<lambda>flag l. flag # l)
          65536 8388608
          (sample_blocks_storage_cfg\<lparr>TSDB := sample_cfg\<lparr>StripeSize := 3\<rparr>,
             BucketStore := sample_bucket_store_cfg\<lparr>StreamingBatchSize := 0\<rparr>\<rparr>) [])
       = Some errInvalidStripeSize"
    using BlocksStorageConfig_Validate_first_failure
      [of "\<lambda>c. None" "sample_blocks_storage_cfg\<lparr>TSDB := sample_cfg\<lparr>StripeSize := 3\<rparr>,
             BucketStore := sample_bucket_store_cfg\<lparr>StreamingBatchSize := 0\<rparr>\<rparr>"
          65536 8388608 "\<lambda>c. None" "\<lambda>c. None" "\<lambda>c. None" "\<lambda>flag l. flag # l" "[]"] tsdb_bad
    by (simp add: sample_blocks_storage_cfg_def Let_def)
  have c: "fst (BlocksStorageConfig_Validate (\<lambda>c. Some (New ''bucket'')) (\<lambda>c. None) (\<lambda>c. None) (\<lambda>c. None)
          (\<lambda>flag l. flag # l) 65536 8388608
          (sample_blocks_storage_cfg\<lparr>TSDB := sample_cfg\<lparr>StripeSize := 3\<rparr>\<rparr>) [])
       = Some (New ''bucket'')"
    using BlocksStorageConfig_Validate_first_failure
      [of "\<lambda>c. Some (New ''bucket'')" "sample_blocks_storage_cfg\<lparr>TSDB := sample_cfg\<lparr>StripeSize := 3\<rparr>\<rparr>"
          65536 8388608 "\<lambda>c. None" "\<lambda>c. None" "\<lambda>c. None" "\<lambda>flag l. flag # l" "[]"]
    by (simp add: sample_blocks_storage_cfg_def Let_def)
  show ?thesis using a b c by simp
qed

section \<open>DurationList\<close>

lemma Split_no_sep: "sep \<notin> set x \<Longrightarrow> Split x sep = [x]"
  by (induction x) auto

lemma Split_append_sep:
  "sep \<notin> set x \<Longrightarrow> Split (x @ sep # rest) sep = x # Split rest sep"
  by (induction x) auto

lemma Split_Join:
  "xs \<noteq> [] \<Longrightarrow> \<forall>x\<in>set xs. sep \<notin> set x \<Longrightarrow> Split (Join xs [sep]) sep = xs"
proof (induction xs "[sep]" rule: Join.induct)
  case 1
  then show ?case by simp
next
  case (2 x)
  then show ?case by (simp add: Split_no_sep)
next
  case (3 x y ys)
  then show ?case by (simp add: Split_append_sep)
qed

lemma Set_loop_all_parse:
  "\<forall>v\<in>set d. ParseDuration (Duration_String v) = Inr v \<Longrightarrow>
   Set_loop ParseDuration (map Duration_String d) acc = (None, acc @ d)"
  by (induction d arbitrary: acc) simp_all

text \<open>
  C9. \<open>DurationList\<close> round-trips through its string form. For a non-empty list \<open>d\<close>,
  \<open>Set\<close> on the string of \<open>d\<close> returns no error and leaves \<open>d\<close> behind the receiver,
  whatever list was there before. The two functions of Go's package \<^verbatim>\<open>time\<close> enter
  through what is needed of them on the elements of \<open>d\<close>: \<^verbatim>\<open>ParseDuration\<close> reads back
  what \<^verbatim>\<open>String\<close> prints, and \<^verbatim>\<open>String\<close> prints no comma.
\<close>

theorem DurationList_roundtrip:
  assumes "d \<noteq> []"
    and "\<forall>v\<in>set d. ParseDuration (Duration_String v) = Inr v"
    and "\<forall>v\<in>set d. CHR '','' \<notin> set (Duration_String v)"
  shows "DurationList_Set ParseDuration (DurationList_String Duration_String d) d0 = (None, d)"
proof -
  have "Split (Join (map Duration_String d) '','') CHR '','' = map Duration_String d"
    using assms(1,3) by (intro Split_Join) auto
  then show ?thesis
    using Set_loop_all_parse [OF assms(2), of "[]"]
    by (simp add: DurationList_Set_def DurationList_String_def)
qed

theorem DurationList_roundtrip_witness:
  "DurationList_String table_Duration_String [2 * Hour, 90 * Second, 0] = ''2h0m0s,1m30s,0s''
   \<and> DurationList_Set table_ParseDuration
        (DurationList_String table_Duration_String [2 * Hour, 90 * Second, 0]) [7]
       = (None, [2 * Hour, 90 * Second, 0])"
proof -
  have s: "DurationList_String table_Duration_String [2 * Hour, 90 * Second, 0] = ''2h0m0s,1m30s,0s''"
    by (simp add: DurationList_String_def table_Duration_String_def time_defs)
  have "DurationList_Set table_ParseDuration
        (DurationList_String table_Duration_String [2 * Hour, 90 * Second, 0]) [7]
       = (None, [2 * Hour, 90 * Second, 0])"
    using DurationList_roundtrip [of "[2 * Hour, 90 * Second, 0]" table_ParseDuration
        table_Duration_String "[7]"]
    by (simp add: table_Duration_String_def table_ParseDuration_def time_defs)
  with s show ?thesis by simp
qed

end
